theory Spec2Isabelle
  imports Complex_Main "HOL-Library.Sublist"
begin

section \<open>Contact search: the query tree\<close>

text \<open>
  The embedding follows \<^verbatim>\<open>temba/contacts/search.py\<close>. A query node is a
  \<^verbatim>\<open>Condition\<close>, a \<^verbatim>\<open>BoolCombination\<close> or its subclass
  \<^verbatim>\<open>SinglePropCombination\<close>. Property names, comparators and values are
  strings, as in the source.
\<close>

datatype bool_op = AND | OR

datatype node =
    Condition string string string
  | BoolCombination bool_op "node list"
  | SinglePropCombination string bool_op "node list"

text \<open>\<^verbatim>\<open>isinstance(child, Condition)\<close>.\<close>

fun is_Condition :: "node \<Rightarrow> bool" where
  "is_Condition (Condition p c v) = True"
| "is_Condition (BoolCombination b cs) = False"
| "is_Condition (SinglePropCombination q b cs) = False"

text \<open>The fields \<^verbatim>\<open>op\<close> and \<^verbatim>\<open>children\<close> of a combination. A
  \<^verbatim>\<open>Condition\<close> has neither; the source reads them only after the
  \<^verbatim>\<open>isinstance\<close> test has failed.\<close>

fun node_op :: "node \<Rightarrow> bool_op option" where
  "node_op (Condition p c v) = None"
| "node_op (BoolCombination b cs) = Some b"
| "node_op (SinglePropCombination q b cs) = Some b"

fun children :: "node \<Rightarrow> node list" where
  "children (Condition p c v) = []"
| "children (BoolCombination b cs) = cs"
| "children (SinglePropCombination q b cs) = cs"

text \<open>\<^verbatim>\<open>Condition.IMPLICIT_PROP\<close> and \<^verbatim>\<open>Condition.COMPARATOR_ALIASES\<close>.\<close>

definition IMPLICIT_PROP :: string where
  "IMPLICIT_PROP = ''*''"

definition COMPARATOR_ALIASES :: "string \<rightharpoonup> string" where
  "COMPARATOR_ALIASES = [''is'' \<mapsto> ''='', ''has'' \<mapsto> ''~'']"

text \<open>\<^verbatim>\<open>Condition.__init__\<close>: an alias is replaced, any other comparator is
  stored as given.\<close>

definition Condition_init :: "string \<Rightarrow> string \<Rightarrow> string \<Rightarrow> node" where
  "Condition_init p c v =
     Condition p (case COMPARATOR_ALIASES c of Some a \<Rightarrow> a | None \<Rightarrow> c) v"

section \<open>The optimizer\<close>

subsection \<open>simplify\<close>

text \<open>
  The loop of \<^verbatim>\<open>BoolCombination.simplify\<close> over the already simplified children,
  with the accumulator \<^verbatim>\<open>simplified\<close>. \<open>None\<close> is the early
  \<^verbatim>\<open>return self\<close> taken at the first child combination whose operator differs.
\<close>

fun simplify_loop :: "bool_op \<Rightarrow> node list \<Rightarrow> node list \<Rightarrow> node list option" where
  "simplify_loop b simplified [] = Some simplified"
| "simplify_loop b simplified (Condition p c v # rest) =
     simplify_loop b (simplified @ [Condition p c v]) rest"
| "simplify_loop b simplified (BoolCombination b' cs # rest) =
     (if b' \<noteq> b then None else simplify_loop b (simplified @ cs) rest)"
| "simplify_loop b simplified (SinglePropCombination q b' cs # rest) =
     (if b' \<noteq> b then None else simplify_loop b (simplified @ cs) rest)"

text \<open>\<^verbatim>\<open>QueryNode.simplify\<close> returns the node; \<^verbatim>\<open>BoolCombination.simplify\<close>
  (inherited by \<^verbatim>\<open>SinglePropCombination\<close>) simplifies the children, then either
  returns the receiver with its new children or a fresh \<^verbatim>\<open>BoolCombination\<close>.\<close>

fun simplify :: "node \<Rightarrow> node" where
  "simplify (Condition p c v) = Condition p c v"
| "simplify (BoolCombination b cs) =
     (let cs' = map simplify cs in
      case simplify_loop b [] cs' of
        None \<Rightarrow> BoolCombination b cs'
      | Some simplified \<Rightarrow> BoolCombination b simplified)"
| "simplify (SinglePropCombination q b cs) =
     (let cs' = map simplify cs in
      case simplify_loop b [] cs' of
        None \<Rightarrow> SinglePropCombination q b cs'
      | Some simplified \<Rightarrow> BoolCombination b simplified)"

text \<open>Shape predicates on trees, used to state what \<open>simplify\<close> achieves.\<close>

definition same_op_child :: "bool_op \<Rightarrow> node list \<Rightarrow> bool" where
  "same_op_child b cs = list_ex (\<lambda>c. node_op c = Some b) cs"

definition other_op_child :: "bool_op \<Rightarrow> node list \<Rightarrow> bool" where
  "other_op_child b cs = list_ex (\<lambda>c. \<not> is_Condition c \<and> node_op c \<noteq> Some b) cs"

text \<open>No combination anywhere in the tree has a direct child combination with its own
  operator.\<close>

fun flat :: "node \<Rightarrow> bool" where
  "flat (Condition p c v) = True"
| "flat (BoolCombination b cs) = (\<not> same_op_child b cs \<and> list_all flat cs)"
| "flat (SinglePropCombination q b cs) = (\<not> same_op_child b cs \<and> list_all flat cs)"

text \<open>Every combination in the tree that has a direct child combination with its own
  operator also has a direct child combination with the other operator.\<close>

fun flat_unless_mixed :: "node \<Rightarrow> bool" where
  "flat_unless_mixed (Condition p c v) = True"
| "flat_unless_mixed (BoolCombination b cs) =
     ((same_op_child b cs \<longrightarrow> other_op_child b cs) \<and> list_all flat_unless_mixed cs)"
| "flat_unless_mixed (SinglePropCombination q b cs) =
     ((same_op_child b cs \<longrightarrow> other_op_child b cs) \<and> list_all flat_unless_mixed cs)"

text \<open>What the loop of \<open>simplify\<close> contributes for one child when it runs to its end: a
  condition itself, for a combination its children.\<close>

fun splice :: "node \<Rightarrow> node list" where
  "splice (Condition p c v) = [Condition p c v]"
| "splice (BoolCombination b cs) = cs"
| "splice (SinglePropCombination q b cs) = cs"

section \<open>Errors and strings\<close>

text \<open>
  Every exception the module can raise is a value. \<^verbatim>\<open>SearchException\<close> carries its
  message; the others are the Python built-ins raised by a failed \<^verbatim>\<open>assert\<close>, a
  missing dictionary key, a missing attribute, \<^verbatim>\<open>reduce\<close> on an empty sequence, and
  the \<^verbatim>\<open>ValueError\<close> of \<^verbatim>\<open>build_value_query_params\<close>.
\<close>

datatype error =
    SearchException string
  | AssertionError
  | KeyError string
  | AttributeError
  | TypeError
  | ValueError string

text \<open>Evaluating a list comprehension whose elements may raise: the first error, from the
  left, is the one raised.\<close>

fun sequence :: "(error + 'a) list \<Rightarrow> error + 'a list" where
  "sequence [] = Inr []"
| "sequence (Inl e # rest) = Inl e"
| "sequence (Inr x # rest) = (case sequence rest of Inl e \<Rightarrow> Inl e | Inr xs \<Rightarrow> Inr (x # xs))"

text \<open>\<^verbatim>\<open>functools.reduce\<close> without an initial value.\<close>

fun reduce :: "('a \<Rightarrow> 'a \<Rightarrow> 'a) \<Rightarrow> 'a list \<Rightarrow> error + 'a" where
  "reduce f [] = Inl TypeError"
| "reduce f (x # xs) = Inr (foldl f x xs)"

text \<open>\<^verbatim>\<open>str.lower\<close>. Characters are bytes here and the case mapping is the ASCII one;
  text beyond ASCII is outside the model.\<close>

definition lower_char :: "char \<Rightarrow> char" where
  "lower_char c =
     (case map_of (zip ''ABCDEFGHIJKLMNOPQRSTUVWXYZ'' ''abcdefghijklmnopqrstuvwxyz'') c of
        Some d \<Rightarrow> d
      | None \<Rightarrow> c)"

definition lower :: "string \<Rightarrow> string" where
  "lower s = map lower_char s"

subsection \<open>split\_by\_prop\<close>

text \<open>\<^verbatim>\<open>SinglePropCombination.__init__\<close> with its assertion that every child is a
  \<^verbatim>\<open>Condition\<close> on the combination's property.\<close>

fun on_prop :: "string \<Rightarrow> node \<Rightarrow> bool" where
  "on_prop q (Condition p c v) = (p = q)"
| "on_prop q (BoolCombination b cs) = False"
| "on_prop q (SinglePropCombination q' b cs) = False"

definition SinglePropCombination_init :: "string \<Rightarrow> bool_op \<Rightarrow> node list \<Rightarrow> error + node" where
  "SinglePropCombination_init q b cs =
     (if list_all (on_prop q) cs then Inr (SinglePropCombination q b cs) else Inl AssertionError)"

text \<open>The grouping key of \<^verbatim>\<open>split_by_prop\<close>:
  \<^verbatim>\<open>child.prop if isinstance(child, Condition) else None\<close>.\<close>

fun child_prop :: "node \<Rightarrow> string option" where
  "child_prop (Condition p c v) = Some p"
| "child_prop (BoolCombination b cs) = None"
| "child_prop (SinglePropCombination q b cs) = None"

text \<open>The \<^verbatim>\<open>OrderedDict\<close> of lists is an association list in insertion order;
  \<open>od_append\<close> is \<^verbatim>\<open>if k not in d: d[k] = []\<close> followed by \<^verbatim>\<open>d[k].append(v)\<close>.\<close>

fun od_append :: "'k \<Rightarrow> 'v \<Rightarrow> ('k \<times> 'v list) list \<Rightarrow> ('k \<times> 'v list) list" where
  "od_append k v [] = [(k, [v])]"
| "od_append k v ((k', vs) # rest) =
     (if k' = k then (k', vs @ [v]) # rest else (k', vs) # od_append k v rest)"

definition children_by_prop :: "node list \<Rightarrow> (string option \<times> node list) list" where
  "children_by_prop cs = foldl (\<lambda>d child. od_append (child_prop child) child d) [] cs"

text \<open>The second loop of \<^verbatim>\<open>split_by_prop\<close>, over the items of the dictionary, with the
  accumulator \<^verbatim>\<open>new_children\<close>.\<close>

fun split_loop ::
  "bool_op \<Rightarrow> node list \<Rightarrow> (string option \<times> node list) list \<Rightarrow> error + node list" where
  "split_loop b new_children [] = Inr new_children"
| "split_loop b new_children ((None, cs) # rest) = split_loop b (new_children @ cs) rest"
| "split_loop b new_children ((Some q, cs) # rest) =
     (if length cs > 1 then
        (case SinglePropCombination_init q b cs of
           Inl e \<Rightarrow> Inl e
         | Inr n \<Rightarrow> split_loop b (new_children @ [n]) rest)
      else split_loop b (new_children @ cs) rest)"

text \<open>\<^verbatim>\<open>if len(new_children) == 1: return new_children[0]\<close>, else a new
  \<^verbatim>\<open>BoolCombination\<close>.\<close>

fun split_result :: "bool_op \<Rightarrow> node list \<Rightarrow> node" where
  "split_result b [n] = n"
| "split_result b new_children = BoolCombination b new_children"

fun split_by_prop :: "node \<Rightarrow> error + node" where
  "split_by_prop (Condition p c v) = Inr (Condition p c v)"
| "split_by_prop (BoolCombination b cs) =
     (case sequence (map split_by_prop cs) of
        Inl e \<Rightarrow> Inl e
      | Inr cs' \<Rightarrow>
          (case split_loop b [] (children_by_prop cs') of
             Inl e \<Rightarrow> Inl e
           | Inr new_children \<Rightarrow> Inr (split_result b new_children)))"
| "split_by_prop (SinglePropCombination q b cs) =
     (case sequence (map split_by_prop cs) of
        Inl e \<Rightarrow> Inl e
      | Inr cs' \<Rightarrow>
          (case split_loop b [] (children_by_prop cs') of
             Inl e \<Rightarrow> Inl e
           | Inr new_children \<Rightarrow> Inr (split_result b new_children)))"

text \<open>\<^verbatim>\<open>ContactQuery.optimized\<close>, on the root of the query.\<close>

definition optimized :: "node \<Rightarrow> error + node" where
  "optimized t = split_by_prop (simplify t)"

fun get_prop_names :: "node \<Rightarrow> string list" where
  "get_prop_names (Condition p c v) = [p]"
| "get_prop_names (BoolCombination b cs) = concat (map get_prop_names cs)"
| "get_prop_names (SinglePropCombination q b cs) = concat (map get_prop_names cs)"

section \<open>The organization, its schema and the stores\<close>

text \<open>
  The models the module reads (\<^verbatim>\<open>Org\<close>, \<^verbatim>\<open>ContactField\<close>, \<^verbatim>\<open>Contact\<close>,
  \<^verbatim>\<open>ContactURN\<close>, \<^verbatim>\<open>Value\<close>, \<^verbatim>\<open>AdminBoundary\<close>) are declared outside the
  source at hand; each is a record with the columns the module uses, and a table is the
  list of its rows in the order a query returns them. Instants are microseconds since
  the epoch, decimals are rationals.
\<close>

record org =
  org_id :: nat
  is_anon :: bool
  timezone :: string
  dayfirst :: bool

datatype value_type =
  TYPE_TEXT | TYPE_DECIMAL | TYPE_DATETIME | TYPE_STATE | TYPE_DISTRICT | TYPE_WARD | TYPE_OTHER

record contact_field =
  field_id :: nat
  field_org :: org
  field_key :: string
  field_is_active :: bool
  field_value_type :: value_type

record contact =
  contact_id :: int
  contact_name :: "string option"

record contact_urn =
  urn_contact_id :: "int option"
  urn_scheme :: string
  urn_path :: string

record value_row =
  value_contact_id :: int
  value_contact_field :: "nat option"
  string_value :: "string option"
  decimal_value :: "rat option"
  datetime_value :: "int option"
  location_value :: "nat option"

record admin_boundary =
  boundary_id :: nat
  boundary_name :: string

record db =
  db_fields :: "contact_field list"
  db_contacts :: "contact list"
  db_urns :: "contact_urn list"
  db_values :: "value_row list"
  db_boundaries :: "admin_boundary list"

text \<open>
  The helpers the module calls but does not define are parameters:
  \<^verbatim>\<open>temba.utils.str_to_datetime(value, tz, dayfirst, fill_time=False)\<close>, which gives the
  instant of the local date or nothing, the constructor \<^verbatim>\<open>Decimal\<close> and the built-in
  \<^verbatim>\<open>int\<close>, which raise on a string they cannot read (\<open>None\<close> here).
\<close>

record ext =
  str_to_datetime :: "string \<Rightarrow> string \<Rightarrow> bool \<Rightarrow> int option"
  Decimal :: "string \<Rightarrow> rat option"
  py_int :: "string \<Rightarrow> int option"

text \<open>\<^verbatim>\<open>timedelta(days=n)\<close>, in microseconds.\<close>

definition timedelta_days :: "int \<Rightarrow> int" where
  "timedelta_days n = n * 86400000000"

section \<open>Predicates\<close>

text \<open>
  A Django \<^verbatim>\<open>Q\<close> object is kept as the term the module builds; \<open>eval_q\<close> below gives
  it the meaning the database gives it. A keyword \<^verbatim>\<open>column__lookup=value\<close> is a
  constructor for the column, applied to the lookup and the value.
\<close>

datatype lookup = iexact | icontains | exact | gt | gte | lt | lte | equal_day

text \<open>One entry of the parameter dictionary of a filter on \<^verbatim>\<open>Value\<close>. The argument of
  \<^verbatim>\<open>location_value__in\<close> is the query set
  \<^verbatim>\<open>AdminBoundary.objects.filter(name__lookup=value).values('id')\<close>, kept as the lookup
  and the value.\<close>

datatype param =
    P_contact_field contact_field
  | P_string_value lookup string
  | P_decimal_value lookup rat
  | P_datetime_value lookup int
  | P_location_value_in lookup string

datatype urn_param =
    U_scheme string
  | U_path lookup string

text \<open>A \<^verbatim>\<open>Q\<close> over rows of \<^verbatim>\<open>Value\<close>: keyword arguments, or two of them combined.\<close>

datatype vq =
    VQ "param list"
  | VQ_and vq vq
  | VQ_or vq vq

text \<open>A \<^verbatim>\<open>Q\<close> over contacts. \<open>Q_id_in_urns ps\<close> is
  \<^verbatim>\<open>Q(id__in=ContactURN.objects.filter(**ps).values('contact_id'))\<close> and
  \<open>Q_id_in_values v\<close> is \<^verbatim>\<open>Q(id__in=Value.objects.filter(v).values('contact_id'))\<close>.\<close>

datatype q =
    Q_attr string lookup string
  | Q_id int
  | Q_id_in_urns "urn_param list"
  | Q_id_in_values vq
  | Q_not q
  | Q_and q q
  | Q_or q q

text \<open>\<^verbatim>\<open>operator.and_\<close> and \<^verbatim>\<open>operator.or_\<close> on \<^verbatim>\<open>Q\<close> objects.\<close>

fun q_op :: "bool_op \<Rightarrow> q \<Rightarrow> q \<Rightarrow> q" where
  "q_op AND = Q_and"
| "q_op OR = Q_or"

fun vq_op :: "bool_op \<Rightarrow> vq \<Rightarrow> vq \<Rightarrow> vq" where
  "vq_op AND = VQ_and"
| "vq_op OR = VQ_or"

subsection \<open>What a predicate selects\<close>

fun text_match :: "lookup \<Rightarrow> string \<Rightarrow> string \<Rightarrow> bool" where
  "text_match iexact s v = (lower s = lower v)"
| "text_match icontains s v = sublist (lower v) (lower s)"
| "text_match exact s v = (s = v)"
| "text_match l s v = False"

fun cmp_match :: "lookup \<Rightarrow> 'a::linorder \<Rightarrow> 'a \<Rightarrow> bool" where
  "cmp_match exact x y = (x = y)"
| "cmp_match gt x y = (x > y)"
| "cmp_match gte x y = (x \<ge> y)"
| "cmp_match lt x y = (x < y)"
| "cmp_match lte x y = (x \<le> y)"
| "cmp_match l x y = False"

text \<open>A comparison with a null column selects nothing.\<close>

fun eval_param :: "db \<Rightarrow> value_row \<Rightarrow> param \<Rightarrow> bool" where
  "eval_param d r (P_contact_field f) = (value_contact_field r = Some (field_id f))"
| "eval_param d r (P_string_value l v) =
     (case string_value r of None \<Rightarrow> False | Some s \<Rightarrow> text_match l s v)"
| "eval_param d r (P_decimal_value l v) =
     (case decimal_value r of None \<Rightarrow> False | Some x \<Rightarrow> cmp_match l x v)"
| "eval_param d r (P_datetime_value l v) =
     (case datetime_value r of None \<Rightarrow> False | Some x \<Rightarrow> cmp_match l x v)"
| "eval_param d r (P_location_value_in l v) =
     (case location_value r of
        None \<Rightarrow> False
      | Some b \<Rightarrow> list_ex (\<lambda>a. boundary_id a = b \<and> text_match l (boundary_name a) v)
                    (db_boundaries d))"

fun eval_vq :: "db \<Rightarrow> value_row \<Rightarrow> vq \<Rightarrow> bool" where
  "eval_vq d r (VQ ps) = list_all (eval_param d r) ps"
| "eval_vq d r (VQ_and a b) = (eval_vq d r a \<and> eval_vq d r b)"
| "eval_vq d r (VQ_or a b) = (eval_vq d r a \<or> eval_vq d r b)"

fun eval_urn_param :: "contact_urn \<Rightarrow> urn_param \<Rightarrow> bool" where
  "eval_urn_param u (U_scheme s) = (urn_scheme u = s)"
| "eval_urn_param u (U_path l v) = text_match l (urn_path u) v"

fun eval_q :: "db \<Rightarrow> contact \<Rightarrow> q \<Rightarrow> bool" where
  "eval_q d c (Q_attr a l v) =
     (if a = ''name'' then
        (case contact_name c of None \<Rightarrow> False | Some n \<Rightarrow> text_match l n v)
      else False)"
| "eval_q d c (Q_id i) = (contact_id c = i)"
| "eval_q d c (Q_id_in_urns ps) =
     list_ex (\<lambda>u. urn_contact_id u = Some (contact_id c) \<and> list_all (eval_urn_param u) ps)
       (db_urns d)"
| "eval_q d c (Q_id_in_values v) =
     list_ex (\<lambda>r. value_contact_id r = contact_id c \<and> eval_vq d r v) (db_values d)"
| "eval_q d c (Q_not a) = (\<not> eval_q d c a)"
| "eval_q d c (Q_and a b) = (eval_q d c a \<and> eval_q d c b)"
| "eval_q d c (Q_or a b) = (eval_q d c a \<or> eval_q d c b)"

text \<open>The contacts a predicate selects, as \<^verbatim>\<open>base_queryset.filter(query)\<close> does on the
  table of contacts.\<close>

definition select :: "db \<Rightarrow> q \<Rightarrow> contact list" where
  "select d query = filter (\<lambda>c. eval_q d c query) (db_contacts d)"

section \<open>The property resolver\<close>

datatype prop_obj = PROP_ATTRIBUTE string | PROP_SCHEME string | PROP_FIELD contact_field

definition SEARCHABLE_ATTRIBUTES :: "string list" where
  "SEARCHABLE_ATTRIBUTES = [''name'']"

definition SEARCHABLE_SCHEMES :: "string list" where
  "SEARCHABLE_SCHEMES = [''tel'', ''twitter'']"

text \<open>The property map is a dictionary from names to \<^verbatim>\<open>None\<close> or a pair of kind
  and object; it is kept in insertion order, which is the order the last loop of
  \<^verbatim>\<open>get_prop_map\<close> visits it in. \<open>od_set\<close> is the assignment \<^verbatim>\<open>d[k] = v\<close>.\<close>

type_synonym prop_map = "(string \<times> prop_obj option) list"

fun od_set :: "'k \<Rightarrow> 'v \<Rightarrow> ('k \<times> 'v) list \<Rightarrow> ('k \<times> 'v) list" where
  "od_set k v [] = [(k, v)]"
| "od_set k v ((k', v') # rest) =
     (if k' = k then (k', v) # rest else (k', v') # od_set k v rest)"

text \<open>\<^verbatim>\<open>{p: None for p in names if p != Condition.IMPLICIT_PROP}\<close>.\<close>

definition init_prop_map :: "string list \<Rightarrow> prop_map" where
  "init_prop_map names =
     foldl (\<lambda>m p. od_set p None m) [] (filter (\<lambda>p. p \<noteq> IMPLICIT_PROP) names)"

text \<open>\<^verbatim>\<open>ContactField.objects.filter(org=org, key__in=keys, is_active=True)\<close>.\<close>

definition active_fields :: "db \<Rightarrow> org \<Rightarrow> string list \<Rightarrow> contact_field list" where
  "active_fields d g keys =
     filter (\<lambda>f. org_id (field_org f) = org_id g \<and> field_key f \<in> set keys \<and> field_is_active f)
       (db_fields d)"

definition set_fields :: "contact_field list \<Rightarrow> prop_map \<Rightarrow> prop_map" where
  "set_fields fs m = foldl (\<lambda>m f. od_set (field_key f) (Some (PROP_FIELD f)) m) m fs"

definition set_attributes :: "prop_map \<Rightarrow> prop_map" where
  "set_attributes m =
     foldl (\<lambda>m attr. if attr \<in> set (map fst m) then od_set attr (Some (PROP_ATTRIBUTE attr)) m else m)
       m SEARCHABLE_ATTRIBUTES"

definition set_schemes :: "prop_map \<Rightarrow> prop_map" where
  "set_schemes m =
     foldl (\<lambda>m scheme.
              if scheme \<in> set (map fst m) then od_set scheme (Some (PROP_SCHEME scheme)) m else m)
       m SEARCHABLE_SCHEMES"

text \<open>The last loop: the first entry still \<^verbatim>\<open>None\<close> raises.\<close>

fun check_resolved :: "prop_map \<Rightarrow> error option" where
  "check_resolved [] = None"
| "check_resolved ((p, None) # rest) = Some (SearchException (''Unrecognized field: '' @ p))"
| "check_resolved ((p, Some obj) # rest) = check_resolved rest"

definition get_prop_map :: "db \<Rightarrow> org \<Rightarrow> node \<Rightarrow> error + prop_map" where
  "get_prop_map d g t =
     (let m0 = init_prop_map (get_prop_names t);
          m1 = set_fields (active_fields d g (map fst m0)) m0;
          m2 = set_attributes m1;
          m3 = set_schemes m2
      in case check_resolved m3 of Some e \<Rightarrow> Inl e | None \<Rightarrow> Inr m3)"

text \<open>\<^verbatim>\<open>prop_type, prop_obj = prop_map[self.prop]\<close>: a missing key raises
  \<^verbatim>\<open>KeyError\<close>, an entry that is \<^verbatim>\<open>None\<close> cannot be unpacked.\<close>

definition prop_lookup :: "prop_map \<Rightarrow> string \<Rightarrow> error + prop_obj" where
  "prop_lookup m p =
     (case map_of m p of
        None \<Rightarrow> Inl (KeyError p)
      | Some None \<Rightarrow> Inl TypeError
      | Some (Some obj) \<Rightarrow> Inr obj)"

section \<open>The predicate compiler\<close>

definition TEXT_LOOKUPS :: "string \<rightharpoonup> lookup" where
  "TEXT_LOOKUPS = [''='' \<mapsto> iexact, ''~'' \<mapsto> icontains]"

definition DECIMAL_LOOKUPS :: "string \<rightharpoonup> lookup" where
  "DECIMAL_LOOKUPS =
     [''='' \<mapsto> exact, ''is'' \<mapsto> exact, ''>'' \<mapsto> gt, ''>='' \<mapsto> gte, ''<'' \<mapsto> lt, ''<='' \<mapsto> lte]"

definition DATETIME_LOOKUPS :: "string \<rightharpoonup> lookup" where
  "DATETIME_LOOKUPS =
     [''='' \<mapsto> equal_day, ''is'' \<mapsto> equal_day, ''>'' \<mapsto> gt, ''>='' \<mapsto> gte, ''<'' \<mapsto> lt,
      ''<='' \<mapsto> lte]"

definition LOCATION_LOOKUPS :: "string \<rightharpoonup> lookup" where
  "LOCATION_LOOKUPS = [''='' \<mapsto> iexact, ''~'' \<mapsto> icontains]"

text \<open>The methods of \<^verbatim>\<open>Condition\<close> take the comparator \<open>c\<close> and the value \<open>v\<close> of the
  receiver as arguments.\<close>

definition build_implicit_prop_query :: "ext \<Rightarrow> org \<Rightarrow> string \<Rightarrow> q" where
  "build_implicit_prop_query e g v =
     (let name_query = Q_attr ''name'' icontains v;
          urn_query =
            (if is_anon g then
               (case py_int e v of Some i \<Rightarrow> Q_id i | None \<Rightarrow> Q_id (- 1))
             else Q_id_in_urns [U_path icontains v])
      in Q_or name_query urn_query)"

definition build_attr_query :: "string \<Rightarrow> string \<Rightarrow> string \<Rightarrow> error + q" where
  "build_attr_query c v attr =
     (case TEXT_LOOKUPS c of
        None \<Rightarrow> Inl (SearchException (''Unsupported comparator '' @ c @ '' for contact attribute''))
      | Some l \<Rightarrow> Inr (Q_attr attr l v))"

definition build_urn_query :: "string \<Rightarrow> string \<Rightarrow> string \<Rightarrow> error + q" where
  "build_urn_query c v scheme =
     (case TEXT_LOOKUPS c of
        None \<Rightarrow> Inl (SearchException (''Unsupported comparator '' @ c @ '' for URN''))
      | Some l \<Rightarrow> Inr (Q_id_in_urns [U_scheme scheme, U_path l v]))"

definition build_text_field_params :: "string \<Rightarrow> string \<Rightarrow> contact_field \<Rightarrow> error + param list" where
  "build_text_field_params c v field =
     (case TEXT_LOOKUPS c of
        None \<Rightarrow> Inl (SearchException (''Unsupported comparator '' @ c @ '' for text field''))
      | Some l \<Rightarrow> Inr [P_contact_field field, P_string_value l v])"

definition build_decimal_field_params ::
  "ext \<Rightarrow> string \<Rightarrow> string \<Rightarrow> contact_field \<Rightarrow> error + param list" where
  "build_decimal_field_params e c v field =
     (case DECIMAL_LOOKUPS c of
        None \<Rightarrow> Inl (SearchException (''Unsupported comparator '' @ c @ '' for decimal field''))
      | Some l \<Rightarrow>
          (case Decimal e v of
             None \<Rightarrow> Inl (SearchException
                      (''Can'' @ [CHR 0x27] @ ''t convert '' @ [CHR 0x27] @ v @ [CHR 0x27]
                         @ '' to a decimal''))
           | Some x \<Rightarrow> Inr [P_contact_field field, P_decimal_value l x]))"

text \<open>\<^verbatim>\<open>local_date.astimezone(pytz.utc)\<close> is the same instant, and adding
  \<^verbatim>\<open>timedelta(days=1)\<close> to it adds 24 hours.\<close>

definition build_datetime_field_params ::
  "ext \<Rightarrow> string \<Rightarrow> string \<Rightarrow> contact_field \<Rightarrow> error + param list" where
  "build_datetime_field_params e c v field =
     (case DATETIME_LOOKUPS c of
        None \<Rightarrow> Inl (SearchException (''Unsupported comparator '' @ c @ '' for datetime field''))
      | Some l \<Rightarrow>
          (case str_to_datetime e v (timezone (field_org field)) (dayfirst (field_org field)) of
             None \<Rightarrow> Inl (SearchException (''Unable to parse date: '' @ v))
           | Some local_date \<Rightarrow>
               (let value = local_date in
                if l = equal_day then
                  Inr [P_contact_field field, P_datetime_value gte value,
                       P_datetime_value lt (value + timedelta_days 1)]
                else if l = lte then
                  Inr [P_contact_field field, P_datetime_value lt (value + timedelta_days 1)]
                else if l = gt then
                  Inr [P_contact_field field, P_datetime_value gte (value + timedelta_days 1)]
                else Inr [P_contact_field field, P_datetime_value l value])))"

definition build_location_field_params ::
  "string \<Rightarrow> string \<Rightarrow> contact_field \<Rightarrow> error + param list" where
  "build_location_field_params c v field =
     (case LOCATION_LOOKUPS c of
        None \<Rightarrow> Inl (SearchException (''Unsupported comparator '' @ c @ '' for location field''))
      | Some l \<Rightarrow> Inr [P_contact_field field, P_location_value_in l v])"

definition build_value_query_params ::
  "ext \<Rightarrow> string \<Rightarrow> string \<Rightarrow> contact_field \<Rightarrow> error + param list" where
  "build_value_query_params e c v field =
     (if field_value_type field = TYPE_TEXT then build_text_field_params c v field
      else if field_value_type field = TYPE_DECIMAL then build_decimal_field_params e c v field
      else if field_value_type field = TYPE_DATETIME then build_datetime_field_params e c v field
      else if field_value_type field \<in> {TYPE_STATE, TYPE_DISTRICT, TYPE_WARD}
        then build_location_field_params c v field
      else Inl (ValueError ''Unrecognized contact field type''))"

definition build_value_query :: "ext \<Rightarrow> string \<Rightarrow> string \<Rightarrow> contact_field \<Rightarrow> error + q" where
  "build_value_query e c v field =
     (case build_value_query_params e c v field of
        Inl err \<Rightarrow> Inl err
      | Inr params \<Rightarrow> Inr (Q_id_in_values (VQ params)))"

text \<open>\<^verbatim>\<open>Condition.as_query\<close>.\<close>

definition Condition_as_query ::
  "ext \<Rightarrow> org \<Rightarrow> prop_map \<Rightarrow> string \<Rightarrow> string \<Rightarrow> string \<Rightarrow> error + q" where
  "Condition_as_query e g m p c v =
     (if p = IMPLICIT_PROP then Inr (build_implicit_prop_query e g v)
      else
        (case prop_lookup m p of
           Inl err \<Rightarrow> Inl err
         | Inr (PROP_FIELD field) \<Rightarrow>
             (if lower c \<in> {''='', ''is''} \<and> v = ''''
              then Inr (Q_not (Q_id_in_values (VQ [P_contact_field field])))
              else build_value_query e c v field)
         | Inr (PROP_SCHEME scheme) \<Rightarrow>
             (if is_anon g then Inr (Q_id (- 1)) else build_urn_query c v scheme)
         | Inr (PROP_ATTRIBUTE attr) \<Rightarrow> build_attr_query c v attr))"

text \<open>The body of the loop of \<^verbatim>\<open>SinglePropCombination.as_query\<close> for one child:
  only a \<^verbatim>\<open>Condition\<close> has the method \<^verbatim>\<open>build_value_query_params\<close>;
  \<^verbatim>\<open>del params['contact_field']\<close> removes that entry.\<close>

fun is_contact_field_param :: "param \<Rightarrow> bool" where
  "is_contact_field_param (P_contact_field f) = True"
| "is_contact_field_param x = False"

definition del_contact_field :: "param list \<Rightarrow> error + param list" where
  "del_contact_field params =
     (if list_ex is_contact_field_param params
      then Inr (filter (\<lambda>x. \<not> is_contact_field_param x) params)
      else Inl (KeyError ''contact_field''))"

fun child_value_query :: "ext \<Rightarrow> contact_field \<Rightarrow> node \<Rightarrow> error + vq" where
  "child_value_query e field (Condition p c v) =
     (case build_value_query_params e c v field of
        Inl err \<Rightarrow> Inl err
      | Inr params \<Rightarrow>
          (case del_contact_field params of
             Inl err \<Rightarrow> Inl err
           | Inr params' \<Rightarrow> Inr (VQ params')))"
| "child_value_query e field (BoolCombination b cs) = Inl AttributeError"
| "child_value_query e field (SinglePropCombination q b cs) = Inl AttributeError"

text \<open>\<^verbatim>\<open>as_query\<close> of a node: \<^verbatim>\<open>Condition.as_query\<close>,
  \<^verbatim>\<open>BoolCombination.as_query\<close> and \<^verbatim>\<open>SinglePropCombination.as_query\<close>, which
  falls back on the former for a property that is not a field.\<close>

fun as_query :: "ext \<Rightarrow> org \<Rightarrow> prop_map \<Rightarrow> node \<Rightarrow> error + q" where
  "as_query e g m (Condition p c v) = Condition_as_query e g m p c v"
| "as_query e g m (BoolCombination b cs) =
     (case sequence (map (as_query e g m) cs) of
        Inl err \<Rightarrow> Inl err
      | Inr qs \<Rightarrow> reduce (q_op b) qs)"
| "as_query e g m (SinglePropCombination p b cs) =
     (case prop_lookup m p of
        Inl err \<Rightarrow> Inl err
      | Inr (PROP_FIELD field) \<Rightarrow>
          (case sequence (map (child_value_query e field) cs) of
             Inl err \<Rightarrow> Inl err
           | Inr value_queries \<Rightarrow>
               (case reduce (vq_op b) value_queries of
                  Inl err \<Rightarrow> Inl err
                | Inr combined \<Rightarrow>
                    Inr (Q_id_in_values (VQ_and (VQ [P_contact_field field]) combined))))
      | Inr other \<Rightarrow>
          (case sequence (map (as_query e g m) cs) of
             Inl err \<Rightarrow> Inl err
           | Inr qs \<Rightarrow> reduce (q_op b) qs))"

text \<open>\<^verbatim>\<open>ContactQuery.as_query\<close>: resolve the properties, then compile the root.\<close>

definition ContactQuery_as_query :: "ext \<Rightarrow> db \<Rightarrow> org \<Rightarrow> node \<Rightarrow> error + q" where
  "ContactQuery_as_query e d g t =
     (case get_prop_map d g t of
        Inl err \<Rightarrow> Inl err
      | Inr m \<Rightarrow> as_query e g m t)"

section \<open>The canonical string form\<close>

text \<open>\<^verbatim>\<open>sep.join(xs)\<close>.\<close>

fun join :: "string \<Rightarrow> string list \<Rightarrow> string" where
  "join sep [] = []"
| "join sep [x] = x"
| "join sep (x # y # ys) = x @ sep @ join sep (y # ys)"

definition op_name :: "bool_op \<Rightarrow> string" where
  "op_name b = (if b = OR then ''OR'' else ''AND'')"

text \<open>\<^verbatim>\<open>'%s %s' % (c.comparator, c.value)\<close> for a child of a
  \<^verbatim>\<open>SinglePropCombination\<close>; only a \<^verbatim>\<open>Condition\<close> has these attributes.\<close>

fun child_str :: "node \<Rightarrow> error + string" where
  "child_str (Condition p c v) = Inr (c @ '' '' @ v)"
| "child_str (BoolCombination b cs) = Inl AttributeError"
| "child_str (SinglePropCombination q b cs) = Inl AttributeError"

text \<open>\<^verbatim>\<open>__str__\<close> of the three classes.\<close>

fun str :: "node \<Rightarrow> error + string" where
  "str (Condition p c v) = Inr (p @ c @ v)"
| "str (BoolCombination b cs) =
     (case sequence (map str cs) of
        Inl err \<Rightarrow> Inl err
      | Inr ss \<Rightarrow> Inr (op_name b @ ''('' @ join '', '' ss @ '')''))"
| "str (SinglePropCombination q b cs) =
     (case sequence (map child_str cs) of
        Inl err \<Rightarrow> Inl err
      | Inr ss \<Rightarrow> Inr (op_name b @ ''['' @ q @ ''](''  @ join '', '' ss @ '')''))"

section \<open>The lexer\<close>

text \<open>
  The lexer is built by \<^verbatim>\<open>ply.lex\<close> from the rules of \<^verbatim>\<open>SearchLexer\<close>. At each
  position it skips the characters of \<^verbatim>\<open>t_ignore\<close>, then tries the rules in the order
  of the master pattern: the rules given as functions in the order they are written
  (\<^verbatim>\<open>t_COMPARATOR\<close>, \<^verbatim>\<open>t_STRING\<close>, \<^verbatim>\<open>t_TEXT\<close>), then those given as strings
  (\<^verbatim>\<open>t_LPAREN\<close>, \<^verbatim>\<open>t_RPAREN\<close>). The first rule that matches gives the token; when
  none matches, \<^verbatim>\<open>t_error\<close> raises. Within a rule, alternatives are tried from the
  left and the first that matches is taken, as Python's \<^verbatim>\<open>re\<close> does.
\<close>

datatype tok_type = T_AND | T_OR | T_COMPARATOR | T_TEXT | T_STRING | T_LPAREN | T_RPAREN

type_synonym token = "tok_type \<times> string"

text \<open>\<^verbatim>\<open>t_ignore = ' \t'\<close>.\<close>

definition ignored :: "char \<Rightarrow> bool" where
  "ignored c = (c = CHR '' '' \<or> c = CHR 0x09)"

text \<open>The class \<^verbatim>\<open>[\w_\.\+\-\/]\<close>, for ASCII text: letters, digits, the underscore,
  dot, plus, minus and slash.\<close>

definition text_char :: "char \<Rightarrow> bool" where
  "text_char c =
     (c \<in> set ''abcdefghijklmnopqrstuvwxyzABCDEFGHIJKLMNOPQRSTUVWXYZ0123456789_.+-/'')"

text \<open>\<^verbatim>\<open>reserved\<close>.\<close>

definition reserved :: "string \<rightharpoonup> tok_type" where
  "reserved = [''and'' \<mapsto> T_AND, ''or'' \<mapsto> T_OR, ''has'' \<mapsto> T_COMPARATOR, ''is'' \<mapsto> T_COMPARATOR]"

text \<open>
  The pattern of \<^verbatim>\<open>t_COMPARATOR\<close>, \<^verbatim>\<open>~|=|[<>]=?|~~?\<close>, at the head of the input:
  the matched text and the rest. The alternatives are in the order of the pattern, so
  the last one is only reached when the first three have failed.
\<close>

fun match_COMPARATOR :: "string \<Rightarrow> (string \<times> string) option" where
  "match_COMPARATOR [] = None"
| "match_COMPARATOR (c # rest) =
     (if c = CHR ''~'' then Some (''~'', rest)
      else if c = CHR ''='' then Some (''='', rest)
      else if c = CHR ''<'' \<or> c = CHR ''>'' then
        (case rest of
           [] \<Rightarrow> Some ([c], rest)
         | c' # rest' \<Rightarrow> if c' = CHR ''='' then Some ([c, c'], rest') else Some ([c], rest))
      else if c = CHR ''~'' then
        (case rest of
           [] \<Rightarrow> Some (''~'', rest)
         | c' # rest' \<Rightarrow> if c' = CHR ''~'' then Some (''~~'', rest') else Some (''~'', rest))
      else None)"

text \<open>The pattern of \<^verbatim>\<open>t_STRING\<close>, a double quote, any characters but the double
  quote, and a double quote; the value is the text between the quotes.\<close>

fun match_STRING :: "string \<Rightarrow> (string \<times> string) option" where
  "match_STRING [] = None"
| "match_STRING (c # rest) =
     (if c = CHR 0x22 then
        (case dropWhile (\<lambda>x. x \<noteq> CHR 0x22) rest of
           [] \<Rightarrow> None
         | c' # rest' \<Rightarrow> Some (takeWhile (\<lambda>x. x \<noteq> CHR 0x22) rest, rest'))
      else None)"

text \<open>The pattern of \<^verbatim>\<open>t_TEXT\<close>, the longest non-empty run of text characters.\<close>

definition match_TEXT :: "string \<Rightarrow> (string \<times> string) option" where
  "match_TEXT s =
     (if takeWhile text_char s = [] then None
      else Some (takeWhile text_char s, dropWhile text_char s))"

datatype lexed = Lex_end | Lex_error error | Lex_token token string

text \<open>\<^verbatim>\<open>lexer.token()\<close> on the input that is left: the end of the input, an error,
  or a token and the rest of the input.\<close>

definition next_token :: "string \<Rightarrow> lexed" where
  "next_token s =
     (case dropWhile ignored s of
        [] \<Rightarrow> Lex_end
      | c # rest \<Rightarrow>
          (case match_COMPARATOR (c # rest) of
             Some (v, r) \<Rightarrow> Lex_token (T_COMPARATOR, v) r
           | None \<Rightarrow>
               (case match_STRING (c # rest) of
                  Some (v, r) \<Rightarrow> Lex_token (T_STRING, v) r
                | None \<Rightarrow>
                    (case match_TEXT (c # rest) of
                       Some (v, r) \<Rightarrow>
                         Lex_token
                           (case reserved (lower v) of Some ty \<Rightarrow> ty | None \<Rightarrow> T_TEXT, v) r
                     | None \<Rightarrow>
                         if c = CHR ''('' then Lex_token (T_LPAREN, ''('') rest
                         else if c = CHR '')'' then Lex_token (T_RPAREN, '')'') rest
                         else Lex_error (SearchException (''Invalid character '' @ [c]))))))"

lemma next_token_shorter: "next_token s = Lex_token t r \<Longrightarrow> length r < length s"
proof -
  assume a: "next_token s = Lex_token t r"
  have le: "length (dropWhile ignored s) \<le> length s"
    by (rule length_dropWhile_le)
  obtain c rest where cr: "dropWhile ignored s = c # rest"
    using a by (cases "dropWhile ignored s") (simp_all add: next_token_def)
  have "length r \<le> length rest"
  proof (cases "match_COMPARATOR (c # rest)")
    case (Some vr)
    then show ?thesis using a cr
      by (cases vr) (auto simp: next_token_def split: if_splits list.splits)
  next
    case nc: None
    show ?thesis
    proof (cases "match_STRING (c # rest)")
      case (Some vr)
      then obtain c' where "dropWhile (\<lambda>x. x \<noteq> CHR 0x22) rest = c' # r"
        using a cr nc by (cases vr) (auto simp: next_token_def split: if_splits list.splits)
      moreover have "length (dropWhile (\<lambda>x. x \<noteq> CHR 0x22) rest) \<le> length rest"
        by (rule length_dropWhile_le)
      ultimately show ?thesis by simp
    next
      case ns: None
      show ?thesis
      proof (cases "match_TEXT (c # rest)")
        case (Some vr)
        then have "r = dropWhile text_char (c # rest)" and "text_char c"
          using a cr nc ns by (cases vr; auto simp: next_token_def match_TEXT_def split: if_splits)+
        then have "r = dropWhile text_char rest" by simp
        then show ?thesis by (simp add: length_dropWhile_le)
      next
        case None
        then show ?thesis using a cr nc ns
          by (auto simp: next_token_def split: if_splits)
      qed
    qed
  qed
  with cr le show ?thesis by simp
qed

text \<open>All the tokens of a text, and the error that ends them if the lexer raises. The
  parser asks for one token at a time, so an error is only raised when the parser has
  come to it.\<close>

function tokenize :: "string \<Rightarrow> token list \<times> error option" where
  "tokenize s =
     (case next_token s of
        Lex_end \<Rightarrow> ([], None)
      | Lex_error e \<Rightarrow> ([], Some e)
      | Lex_token t r \<Rightarrow> (case tokenize r of (ts, err) \<Rightarrow> (t # ts, err)))"
  by pat_completeness auto
termination
  by (relation "measure length") (auto simp: next_token_shorter)

declare tokenize.simps [simp del]

section \<open>The parser\<close>

text \<open>
  The parser is generated by \<^verbatim>\<open>ply.yacc\<close> from the grammar rules in the docstrings
  of the \<^verbatim>\<open>p_\<close> functions and from \<^verbatim>\<open>precedence\<close>:
  \<^enum> \<^verbatim>\<open>expression : expression AND expression\<close>
  \<^enum> \<^verbatim>\<open>expression : expression OR expression\<close>
  \<^enum> \<^verbatim>\<open>expression : expression expression %prec AND\<close>
  \<^enum> \<^verbatim>\<open>expression : LPAREN expression RPAREN\<close>
  \<^enum> \<^verbatim>\<open>expression : TEXT COMPARATOR literal\<close>
  \<^enum> \<^verbatim>\<open>expression : TEXT\<close>
  \<^enum> \<^verbatim>\<open>literal : TEXT\<close>
  \<^enum> \<^verbatim>\<open>literal : STRING\<close>

  It is an LALR(1) automaton. Its states are the sets of items of this grammar, named
  here by what lies on the stack when the state is entered. A reduction is possible on
  the tokens that can follow an expression: the end of the input, \<^verbatim>\<open>AND\<close>,
  \<^verbatim>\<open>OR\<close>, \<^verbatim>\<open>TEXT\<close>, \<^verbatim>\<open>LPAREN\<close> and \<^verbatim>\<open>RPAREN\<close>. Where a state can
  both shift a token and reduce a rule, the generator compares the level of the token
  in \<^verbatim>\<open>precedence\<close> (\<^verbatim>\<open>OR\<close> 1, \<^verbatim>\<open>AND\<close> 2, any other token 0) with the level of
  the rule (rules 1 and 3: 2, rule 2: 1): it reduces when the rule's level is higher, or
  equal with left associativity, and shifts otherwise. So after
  \<^verbatim>\<open>expression expression\<close> and after \<^verbatim>\<open>expression AND expression\<close> the parser
  always reduces, and after \<^verbatim>\<open>expression OR expression\<close> it shifts \<^verbatim>\<open>AND\<close> only.
\<close>

datatype state =
    St_start
  | St_E
  | St_LPAREN
  | St_TEXT
  | St_AND
  | St_OR
  | St_E_E
  | St_LPAREN_E
  | St_COMPARATOR
  | St_E_AND_E
  | St_E_OR_E
  | St_RPAREN
  | St_literal
  | St_lit_TEXT
  | St_lit_STRING

text \<open>The rules, named after the functions that carry them; \<^verbatim>\<open>p_literal\<close> carries
  both rules for a literal.\<close>

datatype rule =
    R_and
  | R_or
  | R_implicit_and
  | R_grouping
  | R_condition
  | R_condition_implicit
  | R_literal

datatype act = Shift state | Reduce rule | Accept | Syntax_error

text \<open>The lookahead is the type of the next token, or \<open>None\<close> at the end of the input.\<close>

definition follows_expression :: "tok_type option \<Rightarrow> bool" where
  "follows_expression la =
     (la \<in> {None, Some T_AND, Some T_OR, Some T_TEXT, Some T_LPAREN, Some T_RPAREN})"

text \<open>The shifts of a state in which an expression may start.\<close>

definition start_expression :: "tok_type option \<Rightarrow> act" where
  "start_expression la =
     (if la = Some T_TEXT then Shift St_TEXT
      else if la = Some T_LPAREN then Shift St_LPAREN
      else Syntax_error)"

fun action :: "state \<Rightarrow> tok_type option \<Rightarrow> act" where
  "action St_start la = start_expression la"
| "action St_LPAREN la = start_expression la"
| "action St_AND la = start_expression la"
| "action St_OR la = start_expression la"
| "action St_E la =
     (if la = None then Accept
      else if la = Some T_AND then Shift St_AND
      else if la = Some T_OR then Shift St_OR
      else start_expression la)"
| "action St_LPAREN_E la =
     (if la = Some T_RPAREN then Shift St_RPAREN
      else if la = Some T_AND then Shift St_AND
      else if la = Some T_OR then Shift St_OR
      else start_expression la)"
| "action St_TEXT la =
     (if la = Some T_COMPARATOR then Shift St_COMPARATOR
      else if follows_expression la then Reduce R_condition_implicit
      else Syntax_error)"
| "action St_COMPARATOR la =
     (if la = Some T_TEXT then Shift St_lit_TEXT
      else if la = Some T_STRING then Shift St_lit_STRING
      else Syntax_error)"
| "action St_E_E la = (if follows_expression la then Reduce R_implicit_and else Syntax_error)"
| "action St_E_AND_E la = (if follows_expression la then Reduce R_and else Syntax_error)"
| "action St_E_OR_E la =
     (if la = Some T_AND then Shift St_AND
      else if follows_expression la then Reduce R_or
      else Syntax_error)"
| "action St_RPAREN la = (if follows_expression la then Reduce R_grouping else Syntax_error)"
| "action St_literal la = (if follows_expression la then Reduce R_condition else Syntax_error)"
| "action St_lit_TEXT la = (if follows_expression la then Reduce R_literal else Syntax_error)"
| "action St_lit_STRING la = (if follows_expression la then Reduce R_literal else Syntax_error)"

text \<open>The state entered with an expression, or a literal, on top of a state.\<close>

fun goto_expression :: "state \<Rightarrow> state" where
  "goto_expression St_start = St_E"
| "goto_expression St_LPAREN = St_LPAREN_E"
| "goto_expression St_AND = St_E_AND_E"
| "goto_expression St_OR = St_E_OR_E"
| "goto_expression s = St_E_E"

text \<open>The stack holds, top first, the states entered and the value of the symbol each
  was entered with: the text of a token, the node of an expression, the text of a
  literal.\<close>

datatype sval = V_token string | V_node node | V_literal string

type_synonym stack = "(state \<times> sval) list"

fun top_state :: "stack \<Rightarrow> state" where
  "top_state [] = St_start"
| "top_state ((s, v) # rest) = s"

definition push_expression :: "node \<Rightarrow> stack \<Rightarrow> stack" where
  "push_expression n st = (goto_expression (top_state st), V_node n) # st"

text \<open>Taking the top entry off the stack when its value is of the kind the rule
  expects there.\<close>

fun pop_node :: "stack \<Rightarrow> (node \<times> stack) option" where
  "pop_node ((s, V_node n) # st) = Some (n, st)"
| "pop_node st = None"

fun pop_token :: "stack \<Rightarrow> (string \<times> stack) option" where
  "pop_token ((s, V_token t) # st) = Some (t, st)"
| "pop_token st = None"

fun pop_literal :: "stack \<Rightarrow> (string \<times> stack) option" where
  "pop_literal ((s, V_literal v) # st) = Some (v, st)"
| "pop_literal st = None"

text \<open>
  A reduction pops the right-hand side of the rule, last symbol first, and pushes what
  the rule's function assigns to \<^verbatim>\<open>p[0]\<close>: \<^verbatim>\<open>p_expression_and\<close>,
  \<^verbatim>\<open>p_expression_or\<close>, \<^verbatim>\<open>p_expression_implicit_and\<close>,
  \<^verbatim>\<open>p_expression_grouping\<close>, \<^verbatim>\<open>p_condition\<close>, \<^verbatim>\<open>p_condition_implicit\<close>
  and \<^verbatim>\<open>p_literal\<close>. \<open>None\<close> stands for a stack that does not end in the
  right-hand side, which the automaton never meets.
\<close>

fun reduce_rule :: "rule \<Rightarrow> stack \<Rightarrow> stack option" where
  "reduce_rule R_and st =
     (case pop_node st of None \<Rightarrow> None | Some (p3, st1) \<Rightarrow>
      case pop_token st1 of None \<Rightarrow> None | Some (p2, st2) \<Rightarrow>
      case pop_node st2 of None \<Rightarrow> None | Some (p1, st3) \<Rightarrow>
        Some (push_expression (BoolCombination AND [p1, p3]) st3))"
| "reduce_rule R_or st =
     (case pop_node st of None \<Rightarrow> None | Some (p3, st1) \<Rightarrow>
      case pop_token st1 of None \<Rightarrow> None | Some (p2, st2) \<Rightarrow>
      case pop_node st2 of None \<Rightarrow> None | Some (p1, st3) \<Rightarrow>
        Some (push_expression (BoolCombination OR [p1, p3]) st3))"
| "reduce_rule R_implicit_and st =
     (case pop_node st of None \<Rightarrow> None | Some (p2, st1) \<Rightarrow>
      case pop_node st1 of None \<Rightarrow> None | Some (p1, st2) \<Rightarrow>
        Some (push_expression (BoolCombination AND [p1, p2]) st2))"
| "reduce_rule R_grouping st =
     (case pop_token st of None \<Rightarrow> None | Some (p3, st1) \<Rightarrow>
      case pop_node st1 of None \<Rightarrow> None | Some (p2, st2) \<Rightarrow>
      case pop_token st2 of None \<Rightarrow> None | Some (p1, st3) \<Rightarrow>
        Some (push_expression p2 st3))"
| "reduce_rule R_condition st =
     (case pop_literal st of None \<Rightarrow> None | Some (p3, st1) \<Rightarrow>
      case pop_token st1 of None \<Rightarrow> None | Some (p2, st2) \<Rightarrow>
      case pop_token st2 of None \<Rightarrow> None | Some (p1, st3) \<Rightarrow>
        Some (push_expression (Condition_init (lower p1) (lower p2) p3) st3))"
| "reduce_rule R_condition_implicit st =
     (case pop_token st of None \<Rightarrow> None | Some (p1, st1) \<Rightarrow>
        Some (push_expression (Condition_init IMPLICIT_PROP ''='' p1) st1))"
| "reduce_rule R_literal st =
     (case pop_token st of None \<Rightarrow> None | Some (p1, st1) \<Rightarrow>
        Some ((St_literal, V_literal p1) # st1))"

text \<open>The weight of a stack, which every reduction lowers: a token counts two, a node
  or a literal one.\<close>

fun sval_weight :: "sval \<Rightarrow> nat" where
  "sval_weight (V_token t) = 2"
| "sval_weight (V_node n) = 1"
| "sval_weight (V_literal v) = 1"

definition stack_weight :: "stack \<Rightarrow> nat" where
  "stack_weight st = sum_list (map (\<lambda>(s, v). sval_weight v) st)"

text \<open>
  One step of the parser's loop on the stack and the tokens that are left. \<open>err\<close> is
  the error the lexer raises after the last token, if any. \<^verbatim>\<open>p_error\<close> raises at the
  first token that has no action, or at the end of the input.
\<close>

datatype step = Done "error + node" | Next stack "token list"

definition syntax_error_at :: "string \<Rightarrow> error" where
  "syntax_error_at v = SearchException (''Syntax error at '' @ [CHR 0x27] @ v @ [CHR 0x27])"

definition lr_step :: "stack \<Rightarrow> token list \<Rightarrow> error option \<Rightarrow> step" where
  "lr_step st toks err =
     (case toks of
        [] \<Rightarrow>
          (case err of
             Some e \<Rightarrow> Done (Inl e)
           | None \<Rightarrow>
               (case action (top_state st) None of
                  Accept \<Rightarrow>
                    (case pop_node st of
                       Some (n, st') \<Rightarrow> Done (Inr n)
                     | None \<Rightarrow> Done (Inl AssertionError))
                | Reduce r \<Rightarrow>
                    (case reduce_rule r st of
                       Some st' \<Rightarrow> Next st' []
                     | None \<Rightarrow> Done (Inl AssertionError))
                | Shift s \<Rightarrow> Done (Inl AssertionError)
                | Syntax_error \<Rightarrow> Done (Inl (SearchException ''Syntax error''))))
      | (ty, v) # rest \<Rightarrow>
          (case action (top_state st) (Some ty) of
             Shift s \<Rightarrow> Next ((s, V_token v) # st) rest
           | Reduce r \<Rightarrow>
               (case reduce_rule r st of
                  Some st' \<Rightarrow> Next st' toks
                | None \<Rightarrow> Done (Inl AssertionError))
           | Accept \<Rightarrow> Done (Inl AssertionError)
           | Syntax_error \<Rightarrow> Done (Inl (syntax_error_at v))))"

lemma pop_node_weight: "pop_node st = Some (n, st') \<Longrightarrow> stack_weight st = stack_weight st' + 1"
  by (induction st rule: pop_node.induct) (auto simp: stack_weight_def)

lemma pop_token_weight: "pop_token st = Some (t, st') \<Longrightarrow> stack_weight st = stack_weight st' + 2"
  by (induction st rule: pop_token.induct) (auto simp: stack_weight_def)

lemma pop_literal_weight:
  "pop_literal st = Some (v, st') \<Longrightarrow> stack_weight st = stack_weight st' + 1"
  by (induction st rule: pop_literal.induct) (auto simp: stack_weight_def)

lemma push_expression_weight: "stack_weight (push_expression n st) = stack_weight st + 1"
  by (simp add: push_expression_def stack_weight_def)

lemma stack_weight_Cons: "stack_weight ((s, v) # st) = sval_weight v + stack_weight st"
  by (simp add: stack_weight_def)

lemma reduce_rule_weight: "reduce_rule r st = Some st' \<Longrightarrow> stack_weight st' < stack_weight st"
  by (cases r)
     (auto simp: push_expression_weight stack_weight_Cons
           dest!: pop_node_weight pop_token_weight pop_literal_weight
           split: option.splits)

lemma lr_step_decreases:
  "lr_step st toks err = Next st' toks' \<Longrightarrow>
     length toks' < length toks \<or> (toks' = toks \<and> stack_weight st' < stack_weight st)"
  by (auto simp: lr_step_def stack_weight_Cons dest: reduce_rule_weight
           split: list.splits option.splits act.splits prod.splits)

function lr_parse :: "stack \<Rightarrow> token list \<Rightarrow> error option \<Rightarrow> error + node" where
  "lr_parse st toks err =
     (case lr_step st toks err of
        Done res \<Rightarrow> res
      | Next st' toks' \<Rightarrow> lr_parse st' toks' err)"
  by pat_completeness auto
termination
  by (relation "inv_image (less_than <*lex*> less_than)
                  (\<lambda>(st, toks, err). (length toks, stack_weight st))")
     (auto dest: lr_step_decreases)

declare lr_parse.simps [simp del]

text \<open>\<^verbatim>\<open>search_parser.parse(text, lexer=search_lexer)\<close>.\<close>

definition parse :: "string \<Rightarrow> error + node" where
  "parse text = (case tokenize text of (toks, err) \<Rightarrow> lr_parse [] toks err)"

text \<open>\<^verbatim>\<open>parse_query\<close>, giving the root of the query.\<close>

definition parse_query :: "string \<Rightarrow> bool \<Rightarrow> error + node" where
  "parse_query text optimize =
     (case parse text of
        Inl e \<Rightarrow> Inl e
      | Inr t \<Rightarrow> if optimize then optimized t else Inr t)"

section \<open>Example data\<close>

text \<open>An organization with a text field \<open>email\<close> and a decimal field \<open>age\<close>, one
  contact without any value, and helpers that read only the decimal \<open>1\<close>.\<close>

definition example_org :: org where
  "example_org = \<lparr>org_id = 1, is_anon = False, timezone = ''UTC'', dayfirst = False\<rparr>"

definition example_email :: contact_field where
  "example_email =
     \<lparr>field_id = 1, field_org = example_org, field_key = ''email'', field_is_active = True,
      field_value_type = TYPE_TEXT\<rparr>"

definition example_age :: contact_field where
  "example_age =
     \<lparr>field_id = 2, field_org = example_org, field_key = ''age'', field_is_active = True,
      field_value_type = TYPE_DECIMAL\<rparr>"

definition example_bob :: contact where
  "example_bob = \<lparr>contact_id = 1, contact_name = Some ''Bob''\<rparr>"

definition example_db :: db where
  "example_db =
     \<lparr>db_fields = [example_email, example_age], db_contacts = [example_bob], db_urns = [],
      db_values = [], db_boundaries = []\<rparr>"

definition example_ext :: ext where
  "example_ext =
     \<lparr>str_to_datetime = (\<lambda>s tz df. None),
      Decimal = (\<lambda>s. if s = ''1'' then Some 1 else None),
      py_int = (\<lambda>s. None)\<rparr>"

section \<open>Resolution of one property name, in words\<close>








section \<open>What the lexer and the parser guarantee\<close>

text \<open>The six canonical comparator symbols, and the lower-cased texts of the
  \<^verbatim>\<open>COMPARATOR\<close> tokens: the symbols and the two reserved words.\<close>

definition canonical :: "string \<Rightarrow> bool" where
  "canonical c = (c \<in> {''='', ''~'', ''>'', ''>='', ''<'', ''<=''})"

definition comparator_word :: "string \<Rightarrow> bool" where
  "comparator_word c = (c \<in> {''='', ''~'', ''>'', ''>='', ''<'', ''<='', ''is'', ''has''})"

text \<open>The text of a \<^verbatim>\<open>TEXT\<close> token: a non-empty run of text characters that is not
  a reserved word.\<close>

definition word :: "string \<Rightarrow> bool" where
  "word w = (w \<noteq> [] \<and> list_all text_char w \<and> reserved (lower w) = None)"

fun token_ok :: "token \<Rightarrow> bool" where
  "token_ok (T_TEXT, v) = word v"
| "token_ok (T_COMPARATOR, v) = comparator_word (lower v)"
| "token_ok (ty, v) = True"

text \<open>A property of every \<open>Condition\<close> of a tree.\<close>

fun all_conditions :: "(string \<Rightarrow> string \<Rightarrow> string \<Rightarrow> bool) \<Rightarrow> node \<Rightarrow> bool" where
  "all_conditions P (Condition p c v) = P p c v"
| "all_conditions P (BoolCombination b cs) = list_all (all_conditions P) cs"
| "all_conditions P (SinglePropCombination q b cs) = list_all (all_conditions P) cs"

text \<open>A condition as the parser builds it: a canonical comparator, and a property that
  is the implicit one or a lower-case word.\<close>

definition parsed_condition :: "string \<Rightarrow> string \<Rightarrow> string \<Rightarrow> bool" where
  "parsed_condition p c v = (canonical c \<and> (p = IMPLICIT_PROP \<or> (word p \<and> lower p = p)))"

text \<open>
  The invariant of the parser's stack: a node on it holds parsed conditions only; the
  entry of state \<open>St_TEXT\<close> is a word; the entry of state \<open>St_COMPARATOR\<close> is a
  comparator token and lies on a \<open>St_TEXT\<close> entry; a literal, reduced or not, lies on a
  \<open>St_COMPARATOR\<close> entry.
\<close>

fun entry_ok :: "state \<Rightarrow> sval \<Rightarrow> state \<Rightarrow> bool" where
  "entry_ok s (V_node n) below =
     (all_conditions parsed_condition n \<and> s \<notin> {St_TEXT, St_COMPARATOR, St_literal, St_lit_TEXT, St_lit_STRING})"
| "entry_ok s (V_token t) below =
     ((s = St_TEXT \<longrightarrow> word t) \<and>
      (s = St_COMPARATOR \<longrightarrow> comparator_word (lower t) \<and> below = St_TEXT) \<and>
      (s = St_lit_TEXT \<or> s = St_lit_STRING \<longrightarrow> below = St_COMPARATOR) \<and>
      s \<noteq> St_literal)"
| "entry_ok s (V_literal l) below = (s = St_literal \<and> below = St_COMPARATOR)"

fun stack_ok :: "stack \<Rightarrow> bool" where
  "stack_ok [] = True"
| "stack_ok ((s, v) # st) = (entry_ok s v (top_state st) \<and> stack_ok st)"

section \<open>Day comparisons, as the specification words them\<close>






section \<open>Properties of simplify\<close>

lemma simplify_loop_None: "simplify_loop b acc cs = None \<longleftrightarrow> other_op_child b cs"
  by (induction b acc cs rule: simplify_loop.induct) (auto simp: other_op_child_def)

lemma simplify_loop_Some:
  "simplify_loop b acc cs = Some r \<Longrightarrow> r = acc @ concat (map splice cs)"
  by (induction b acc cs rule: simplify_loop.induct) (auto split: if_splits)

lemma simplify_loop_eq:
  "simplify_loop b [] cs = (if other_op_child b cs then None else Some (concat (map splice cs)))"
proof (cases "simplify_loop b [] cs")
  case None
  then show ?thesis using simplify_loop_None[of b "[]" cs] by simp
next
  case (Some r)
  then show ?thesis
    using simplify_loop_None[of b "[]" cs] simplify_loop_Some[of b "[]" cs r] by simp
qed

lemma fum_children: "flat_unless_mixed c \<Longrightarrow> list_all flat_unless_mixed (splice c)"
  by (cases c) auto

lemma fum_node:
  "flat_unless_mixed c \<Longrightarrow> node_op c = Some b \<Longrightarrow> same_op_child b (splice c)
     \<Longrightarrow> other_op_child b (splice c)"
  by (cases c) auto

lemma spliced_ok:
  assumes all: "\<forall>c\<in>set cs. flat_unless_mixed c" and no: "\<not> other_op_child b cs"
  shows "(same_op_child b (concat (map splice cs)) \<longrightarrow> other_op_child b (concat (map splice cs)))
         \<and> list_all flat_unless_mixed (concat (map splice cs))"
proof
  show "list_all flat_unless_mixed (concat (map splice cs))"
    using all fum_children by (auto simp: list_all_iff)
  show "same_op_child b (concat (map splice cs)) \<longrightarrow> other_op_child b (concat (map splice cs))"
  proof
    assume "same_op_child b (concat (map splice cs))"
    then obtain c x where c: "c \<in> set cs" and x: "x \<in> set (splice c)" and xb: "node_op x = Some b"
      by (auto simp: same_op_child_def list_ex_iff)
    have notcond: "\<not> is_Condition c" using x xb by (cases c) auto
    with no c have cb: "node_op c = Some b"
      by (auto simp: other_op_child_def list_ex_iff)
    have "same_op_child b (splice c)" using x xb by (auto simp: same_op_child_def list_ex_iff)
    with all c cb have "other_op_child b (splice c)" using fum_node by blast
    then show "other_op_child b (concat (map splice cs))"
      using c by (auto simp: other_op_child_def list_ex_iff)
  qed
qed

lemma simplify_fum: "flat_unless_mixed (simplify t)"
proof (induction t rule: simplify.induct)
  case (1 p c v)
  show ?case by simp
next
  case (2 b cs)
  let ?cs = "map simplify cs"
  have all: "\<forall>c\<in>set ?cs. flat_unless_mixed c" using 2 by auto
  show ?case
  proof (cases "other_op_child b ?cs")
    case True
    with all show ?thesis by (simp add: simplify_loop_eq list_all_iff)
  next
    case False
    from spliced_ok[OF all this] False show ?thesis by (simp add: simplify_loop_eq)
  qed
next
  case (3 q b cs)
  let ?cs = "map simplify cs"
  have all: "\<forall>c\<in>set ?cs. flat_unless_mixed c" using 3 by auto
  show ?case
  proof (cases "other_op_child b ?cs")
    case True
    with all show ?thesis by (simp add: simplify_loop_eq list_all_iff)
  next
    case False
    from spliced_ok[OF all this] False show ?thesis by (simp add: simplify_loop_eq)
  qed
qed

text \<open>
  Claim C4, as stated, fails: \<open>simplify\<close> leaves \<open>AND(AND(a, b), OR(c, d))\<close> as it is,
  so the result has a combination with a direct child of its own operator.
\<close>

theorem C4_simplify_not_flat_counterexample:
  "\<not> flat (simplify (BoolCombination AND
     [BoolCombination AND [Condition ''a'' ''='' ''1'', Condition ''b'' ''='' ''2''],
      BoolCombination OR [Condition ''c'' ''='' ''3'', Condition ''d'' ''='' ''4'']]))"
  by (simp add: same_op_child_def)

text \<open>
  Claim C4, amended: \<open>simplify\<close> simplifies the children first. If one of the simplified
  direct children of a \<open>BoolCombination\<close> is a combination with the other operator, the
  node is returned with its simplified children and nothing is spliced; otherwise every
  child combination is replaced by its children. In the result, a combination has a
  direct child combination with its own operator only if it also has a direct child
  combination with the other operator.
\<close>

theorem C4_simplify_amended:
  "simplify (BoolCombination b cs) =
     (if other_op_child b (map simplify cs) then BoolCombination b (map simplify cs)
      else BoolCombination b (concat (map splice (map simplify cs))))
   \<and> flat_unless_mixed (simplify t)"
  by (simp add: simplify_loop_eq simplify_fum)

theorem C4_simplify_amended_witness:
  "simplify (BoolCombination OR
       [BoolCombination OR [Condition ''a'' ''='' ''1'', Condition ''b'' ''='' ''2''],
        Condition ''c'' ''='' ''3'']) =
     BoolCombination OR
       [Condition ''a'' ''='' ''1'', Condition ''b'' ''='' ''2'', Condition ''c'' ''='' ''3'']
   \<and> flat_unless_mixed (simplify (BoolCombination AND
       [BoolCombination AND [Condition ''a'' ''='' ''1'', Condition ''b'' ''='' ''2''],
        BoolCombination OR [Condition ''c'' ''='' ''3'', Condition ''d'' ''='' ''4'']]))"
  using C4_simplify_amended
    [of OR "[BoolCombination OR [Condition ''a'' ''='' ''1'', Condition ''b'' ''='' ''2''],
             Condition ''c'' ''='' ''3'']"
        "BoolCombination AND
       [BoolCombination AND [Condition ''a'' ''='' ''1'', Condition ''b'' ''='' ''2''],
        BoolCombination OR [Condition ''c'' ''='' ''3'', Condition ''d'' ''='' ''4'']]"]
  by (simp add: other_op_child_def)

section \<open>The empty value under a SinglePropCombination\<close>

text \<open>Standing alone, a condition \<open>field = ""\<close> compiles to the absence of any value for
  the field.\<close>

lemma Condition_empty_value_absence:
  assumes "prop_lookup m p = Inr (PROP_FIELD f)" and "p \<noteq> IMPLICIT_PROP"
  shows "as_query e g m (Condition p ''='' '''') =
           Inr (Q_not (Q_id_in_values (VQ [P_contact_field f])))"
    and "eval_q d c (Q_not (Q_id_in_values (VQ [P_contact_field f]))) \<longleftrightarrow>
           \<not> (\<exists>r \<in> set (db_values d).
                 value_contact_id r = contact_id c \<and> value_contact_field r = Some (field_id f))"
  using assms
  by (auto simp: Condition_as_query_def lower_def lower_char_def list_ex_iff)

text \<open>
  Claim C7 holds for a condition compiled alone and fails for a child of a
  \<open>SinglePropCombination\<close>: \<open>email = "" OR email = x\<close>, once optimized, compiles the
  first child to a comparison of the stored text with the empty string, so the contact
  without a value for \<open>email\<close> is selected by the condition alone and not by the
  combination.
\<close>

theorem C7_grouped_empty_value:
  "optimized (BoolCombination OR
       [Condition ''email'' ''='' '''', Condition ''email'' ''='' ''x'']) =
     Inr (SinglePropCombination ''email'' OR
       [Condition ''email'' ''='' '''', Condition ''email'' ''='' ''x''])
   \<and> ContactQuery_as_query example_ext example_db example_org
       (SinglePropCombination ''email'' OR
         [Condition ''email'' ''='' '''', Condition ''email'' ''='' ''x'']) =
     Inr (Q_id_in_values
           (VQ_and (VQ [P_contact_field example_email])
                   (VQ_or (VQ [P_string_value iexact ''''])
                          (VQ [P_string_value iexact ''x'']))))
   \<and> select example_db
       (Q_id_in_values
           (VQ_and (VQ [P_contact_field example_email])
                   (VQ_or (VQ [P_string_value iexact ''''])
                          (VQ [P_string_value iexact ''x''])))) = []
   \<and> ContactQuery_as_query example_ext example_db example_org
       (Condition ''email'' ''='' '''') =
     Inr (Q_not (Q_id_in_values (VQ [P_contact_field example_email])))
   \<and> select example_db (Q_not (Q_id_in_values (VQ [P_contact_field example_email]))) =
     [example_bob]"
  by code_simp

section \<open>Optimization and the compiled predicate\<close>

text \<open>
  Claim C1 fails on the code. For the text field \<open>email\<close>, the query
  \<open>email = "" OR email = x\<close> selects the contact without a value before optimization
  and nobody after it. For the decimal field \<open>age\<close>, the query \<open>age = "" OR age = 1\<close>
  compiles before optimization and raises after it.
\<close>

theorem C1_optimized_changes_result:
  "(case ContactQuery_as_query example_ext example_db example_org
          (BoolCombination OR [Condition ''email'' ''='' '''', Condition ''email'' ''='' ''x''])
    of Inr query \<Rightarrow> select example_db query = [example_bob] | Inl err \<Rightarrow> False)
   \<and> (case optimized
          (BoolCombination OR [Condition ''email'' ''='' '''', Condition ''email'' ''='' ''x''])
      of Inr t \<Rightarrow>
           (case ContactQuery_as_query example_ext example_db example_org t
            of Inr query \<Rightarrow> select example_db query = [] | Inl err \<Rightarrow> False)
       | Inl err \<Rightarrow> False)
   \<and> (case ContactQuery_as_query example_ext example_db example_org
          (BoolCombination OR [Condition ''age'' ''='' '''', Condition ''age'' ''='' ''1''])
      of Inr query \<Rightarrow> True | Inl err \<Rightarrow> False)
   \<and> (case optimized
          (BoolCombination OR [Condition ''age'' ''='' '''', Condition ''age'' ''='' ''1''])
      of Inr t \<Rightarrow>
           ContactQuery_as_query example_ext example_db example_org t =
             Inl (SearchException
                   (''Can'' @ [CHR 0x27] @ ''t convert '' @ [CHR 0x27] @ [CHR 0x27]
                      @ '' to a decimal''))
       | Inl err \<Rightarrow> False)"
  by code_simp

section \<open>Grouping of implicit conditions\<close>

text \<open>
  Claim C2 fails on the code: the key of an implicit condition is its property \<open>*\<close>,
  not \<^verbatim>\<open>None\<close>, so the two conditions of \<open>bob jim\<close> are wrapped in a
  \<open>SinglePropCombination\<close> on \<open>*\<close>. The property map never holds \<open>*\<close>, so compiling
  the optimized query raises \<^verbatim>\<open>KeyError\<close>, while the query as parsed compiles.
\<close>

theorem C2_implicit_conditions_grouped:
  "parse ''bob jim'' =
     Inr (BoolCombination AND [Condition ''*'' ''='' ''bob'', Condition ''*'' ''='' ''jim''])
   \<and> split_by_prop
       (BoolCombination AND [Condition ''*'' ''='' ''bob'', Condition ''*'' ''='' ''jim'']) =
     Inr (SinglePropCombination ''*'' AND
           [Condition ''*'' ''='' ''bob'', Condition ''*'' ''='' ''jim''])
   \<and> ContactQuery_as_query example_ext example_db example_org
       (SinglePropCombination ''*'' AND
           [Condition ''*'' ''='' ''bob'', Condition ''*'' ''='' ''jim'']) =
     Inl (KeyError ''*'')
   \<and> ContactQuery_as_query example_ext example_db example_org
       (BoolCombination AND [Condition ''*'' ''='' ''bob'', Condition ''*'' ''='' ''jim'']) =
     Inr (Q_and
           (Q_or (Q_attr ''name'' icontains ''bob'') (Q_id_in_urns [U_path icontains ''bob'']))
           (Q_or (Q_attr ''name'' icontains ''jim'') (Q_id_in_urns [U_path icontains ''jim''])))"
  by code_simp

section \<open>The property resolver\<close>





















section \<open>Tokens and parsed conditions\<close>

lemma lower_char_text: "text_char c \<Longrightarrow> text_char (lower_char c)"
  by (auto simp: text_char_def lower_char_def)

lemma lower_char_idem: "lower_char (lower_char c) = lower_char c"
  by (simp add: lower_char_def)

lemma lower_idem: "lower (lower s) = lower s"
  by (simp add: lower_def lower_char_idem)

lemma word_lower:
  assumes "word w"
  shows "word (lower w)"
proof -
  have "lower w \<noteq> []" using assms by (simp add: word_def lower_def)
  moreover have "list_all text_char (lower w)"
    using assms by (auto simp: word_def lower_def list_all_iff lower_char_text)
  moreover have "reserved (lower (lower w)) = None"
    using assms by (simp add: word_def lower_idem)
  ultimately show ?thesis by (simp add: word_def)
qed

lemma match_COMPARATOR_values:
  "match_COMPARATOR s = Some (v, r) \<Longrightarrow> v \<in> {''='', ''~'', ''>'', ''>='', ''<'', ''<=''}"
  by (cases s) (auto split: if_splits list.splits)

lemma lower_symbol:
  "v \<in> {''='', ''~'', ''>'', ''>='', ''<'', ''<=''} \<Longrightarrow> lower v = v"
  by (auto simp: lower_def lower_char_def)

lemma reserved_comparator:
  "reserved w = Some T_COMPARATOR \<Longrightarrow> w = ''is'' \<or> w = ''has''"
  by (auto simp: reserved_def split: if_splits)

lemma reserved_types: "reserved w = Some ty \<Longrightarrow> ty \<in> {T_AND, T_OR, T_COMPARATOR}"
  by (auto simp: reserved_def split: if_splits)

lemma match_TEXT_run:
  "match_TEXT s = Some (v, r) \<Longrightarrow> v \<noteq> [] \<and> list_all text_char v"
  by (auto simp: match_TEXT_def list_all_iff split: if_splits dest: set_takeWhileD)

lemma next_token_ok: "next_token s = Lex_token t r \<Longrightarrow> token_ok t"
proof -
  assume a: "next_token s = Lex_token t r"
  obtain c rest where cr: "dropWhile ignored s = c # rest"
    using a by (cases "dropWhile ignored s") (simp_all add: next_token_def)
  show ?thesis
  proof (cases "match_COMPARATOR (c # rest)")
    case (Some vr)
    obtain v r' where vr: "vr = (v, r')" by (cases vr)
    with Some have "v \<in> {''='', ''~'', ''>'', ''>='', ''<'', ''<=''}"
      using match_COMPARATOR_values by blast
    then have "comparator_word (lower v)"
      by (auto simp: lower_symbol comparator_word_def simp del: insert_iff)
    moreover have "t = (T_COMPARATOR, v)"
      using a cr Some vr by (simp add: next_token_def)
    ultimately show ?thesis by simp
  next
    case nc: None
    show ?thesis
    proof (cases "match_STRING (c # rest)")
      case (Some vr)
      then have "fst t = T_STRING"
        using a cr nc by (cases vr) (auto simp: next_token_def)
      then show ?thesis by (cases t) simp
    next
      case ns: None
      show ?thesis
      proof (cases "match_TEXT (c # rest)")
        case (Some vr)
        obtain v r' where vr: "vr = (v, r')" by (cases vr)
        have run: "v \<noteq> [] \<and> list_all text_char v"
          using Some vr match_TEXT_run by blast
        show ?thesis
        proof (cases "reserved (lower v)")
          case None
          then have "t = (T_TEXT, v)"
            using a cr nc ns Some vr by (simp add: next_token_def)
          then show ?thesis using run None by (simp add: word_def)
        next
          case (Some ty)
          then have t: "t = (ty, v)"
            using a cr nc ns \<open>match_TEXT (c # rest) = Some vr\<close> vr by (simp add: next_token_def)
          from reserved_types[OF Some] show ?thesis
          proof (elim insertE emptyE)
            assume "ty = T_COMPARATOR"
            then show ?thesis
              using t Some reserved_comparator[of "lower v"] by (auto simp: comparator_word_def)
          qed (use t in simp_all)
        qed
      next
        case None
        then have "fst t = T_LPAREN \<or> fst t = T_RPAREN"
          using a cr nc ns by (auto simp: next_token_def split: if_splits)
        then show ?thesis by (cases t) auto
      qed
    qed
  qed
qed

lemma tokenize_ok: "tokenize s = (toks, err) \<Longrightarrow> list_all token_ok toks"
proof (induction s arbitrary: toks err rule: tokenize.induct)
  case (1 s)
  show ?case
  proof (cases "next_token s")
    case Lex_end
    then show ?thesis using "1.prems" by (simp add: tokenize.simps[of s])
  next
    case (Lex_error e)
    then show ?thesis using "1.prems" by (simp add: tokenize.simps[of s])
  next
    case (Lex_token t r)
    obtain ts e where tr: "tokenize r = (ts, e)" by (cases "tokenize r")
    from "1.IH"[OF Lex_token tr] have "list_all token_ok ts" .
    moreover have "toks = t # ts"
      using "1.prems" Lex_token tr by (simp add: tokenize.simps[of s])
    ultimately show ?thesis using next_token_ok[OF Lex_token] by simp
  qed
qed

section \<open>The invariant of the parser\<close>

lemma goto_expression_state:
  "goto_expression s \<notin> {St_TEXT, St_COMPARATOR, St_literal, St_lit_TEXT, St_lit_STRING}"
  by (cases s) simp_all

lemma push_expression_ok:
  "stack_ok st \<Longrightarrow> all_conditions parsed_condition n \<Longrightarrow> stack_ok (push_expression n st)"
  using goto_expression_state[of "top_state st"] by (simp add: push_expression_def)

lemma pop_node_ok:
  "stack_ok st \<Longrightarrow> pop_node st = Some (n, st') \<Longrightarrow>
     all_conditions parsed_condition n \<and> stack_ok st'"
  by (induction st rule: pop_node.induct) auto

lemma pop_token_ok:
  "stack_ok st \<Longrightarrow> pop_token st = Some (t, st') \<Longrightarrow>
     stack_ok st' \<and> (top_state st = St_TEXT \<longrightarrow> word t) \<and>
     (top_state st = St_COMPARATOR \<longrightarrow> comparator_word (lower t) \<and> top_state st' = St_TEXT) \<and>
     (top_state st = St_lit_TEXT \<or> top_state st = St_lit_STRING \<longrightarrow>
        top_state st' = St_COMPARATOR)"
  by (induction st rule: pop_token.induct) auto

lemma pop_literal_ok:
  "stack_ok st \<Longrightarrow> pop_literal st = Some (l, st') \<Longrightarrow>
     stack_ok st' \<and> top_state st' = St_COMPARATOR"
  by (induction st rule: pop_literal.induct) auto

lemma Condition_init_eq:
  "Condition_init p c v =
     Condition p (if c = ''is'' then ''='' else if c = ''has'' then ''~'' else c) v"
  by (simp add: Condition_init_def COMPARATOR_ALIASES_def)

lemma Condition_init_canonical:
  "comparator_word c \<Longrightarrow> \<exists>c'. Condition_init p c v = Condition p c' v \<and> canonical c'"
  by (auto simp: Condition_init_eq comparator_word_def canonical_def)

lemma implicit_condition_ok:
  "all_conditions parsed_condition (Condition_init IMPLICIT_PROP ''='' v)"
  by (simp add: Condition_init_eq parsed_condition_def canonical_def)

lemma explicit_condition_ok:
  assumes "word p" and "comparator_word (lower c)"
  shows "all_conditions parsed_condition (Condition_init (lower p) (lower c) v)"
proof -
  from Condition_init_canonical[OF assms(2)] obtain c' where
    "Condition_init (lower p) (lower c) v = Condition (lower p) c' v" and "canonical c'"
    by blast
  then show ?thesis
    using word_lower[OF assms(1)] by (simp add: parsed_condition_def lower_idem)
qed

lemma reduce_states:
  "action s la = Reduce R_condition \<Longrightarrow> s = St_literal"
  "action s la = Reduce R_condition_implicit \<Longrightarrow> s = St_TEXT"
  "action s la = Reduce R_literal \<Longrightarrow> s = St_lit_TEXT \<or> s = St_lit_STRING"
  by (cases s; simp add: start_expression_def split: if_splits)+

lemma reduce_ok:
  assumes ok: "stack_ok st" and act: "action (top_state st) la = Reduce r"
    and red: "reduce_rule r st = Some st'"
  shows "stack_ok st'"
proof (cases r)
  case R_and
  from red R_and obtain p3 st1 p2 st2 p1 st3 where
    a: "pop_node st = Some (p3, st1)" and b: "pop_token st1 = Some (p2, st2)" and
    c: "pop_node st2 = Some (p1, st3)" and
    st': "st' = push_expression (BoolCombination AND [p1, p3]) st3"
    by (auto split: option.splits)
  from pop_node_ok[OF ok a] have ok1: "stack_ok st1" and n3: "all_conditions parsed_condition p3"
    by simp_all
  from pop_token_ok[OF ok1 b] have ok2: "stack_ok st2" by simp
  from pop_node_ok[OF ok2 c] have ok3: "stack_ok st3" and n1: "all_conditions parsed_condition p1"
    by simp_all
  show ?thesis unfolding st' using n1 n3 by (intro push_expression_ok[OF ok3]) simp
next
  case R_or
  from red R_or obtain p3 st1 p2 st2 p1 st3 where
    a: "pop_node st = Some (p3, st1)" and b: "pop_token st1 = Some (p2, st2)" and
    c: "pop_node st2 = Some (p1, st3)" and
    st': "st' = push_expression (BoolCombination OR [p1, p3]) st3"
    by (auto split: option.splits)
  from pop_node_ok[OF ok a] have ok1: "stack_ok st1" and n3: "all_conditions parsed_condition p3"
    by simp_all
  from pop_token_ok[OF ok1 b] have ok2: "stack_ok st2" by simp
  from pop_node_ok[OF ok2 c] have ok3: "stack_ok st3" and n1: "all_conditions parsed_condition p1"
    by simp_all
  show ?thesis unfolding st' using n1 n3 by (intro push_expression_ok[OF ok3]) simp
next
  case R_implicit_and
  from red R_implicit_and obtain p2 st1 p1 st2 where
    a: "pop_node st = Some (p2, st1)" and b: "pop_node st1 = Some (p1, st2)" and
    st': "st' = push_expression (BoolCombination AND [p1, p2]) st2"
    by (auto split: option.splits)
  from pop_node_ok[OF ok a] have ok1: "stack_ok st1" and n2: "all_conditions parsed_condition p2"
    by simp_all
  from pop_node_ok[OF ok1 b] have ok2: "stack_ok st2" and n1: "all_conditions parsed_condition p1"
    by simp_all
  show ?thesis unfolding st' using n1 n2 by (intro push_expression_ok[OF ok2]) simp
next
  case R_grouping
  from red R_grouping obtain p3 st1 p2 st2 p1 st3 where
    a: "pop_token st = Some (p3, st1)" and b: "pop_node st1 = Some (p2, st2)" and
    c: "pop_token st2 = Some (p1, st3)" and st': "st' = push_expression p2 st3"
    by (auto split: option.splits)
  from pop_token_ok[OF ok a] have ok1: "stack_ok st1" by simp
  from pop_node_ok[OF ok1 b] have ok2: "stack_ok st2" and n2: "all_conditions parsed_condition p2"
    by simp_all
  from pop_token_ok[OF ok2 c] have ok3: "stack_ok st3" by simp
  show ?thesis unfolding st' by (rule push_expression_ok[OF ok3 n2])
next
  case R_condition
  from red R_condition obtain p3 st1 p2 st2 p1 st3 where
    l: "pop_literal st = Some (p3, st1)" and c: "pop_token st1 = Some (p2, st2)" and
    p: "pop_token st2 = Some (p1, st3)" and
    st': "st' = push_expression (Condition_init (lower p1) (lower p2) p3) st3"
    by (auto split: option.splits)
  from pop_literal_ok[OF ok l] have ok1: "stack_ok st1" and s1: "top_state st1 = St_COMPARATOR"
    by simp_all
  from pop_token_ok[OF ok1 c] s1 have ok2: "stack_ok st2" and cw: "comparator_word (lower p2)"
    and s2: "top_state st2 = St_TEXT" by simp_all
  from pop_token_ok[OF ok2 p] s2 have ok3: "stack_ok st3" and w: "word p1" by simp_all
  show ?thesis
    unfolding st' by (rule push_expression_ok[OF ok3 explicit_condition_ok[OF w cw]])
next
  case R_condition_implicit
  from red R_condition_implicit obtain p1 st1 where
    p: "pop_token st = Some (p1, st1)" and
    st': "st' = push_expression (Condition_init IMPLICIT_PROP ''='' p1) st1"
    by (auto split: option.splits)
  from pop_token_ok[OF ok p] have ok1: "stack_ok st1" by simp
  show ?thesis
    unfolding st' by (rule push_expression_ok[OF ok1 implicit_condition_ok])
next
  case R_literal
  from red R_literal obtain p1 st1 where
    p: "pop_token st = Some (p1, st1)" and st': "st' = (St_literal, V_literal p1) # st1"
    by (auto split: option.splits)
  from act R_literal have "top_state st = St_lit_TEXT \<or> top_state st = St_lit_STRING"
    using reduce_states(3) by blast
  with pop_token_ok[OF ok p] have "stack_ok st1" and "top_state st1 = St_COMPARATOR"
    by auto
  then show ?thesis unfolding st' by simp
qed

lemma shift_ok:
  assumes ok: "stack_ok st" and act: "action (top_state st) (Some ty) = Shift s"
    and tok: "token_ok (ty, v)"
  shows "stack_ok ((s, V_token v) # st)"
proof -
  have "entry_ok s (V_token v) (top_state st)"
    using act tok
    by (cases "top_state st"; cases ty;
        simp add: start_expression_def follows_expression_def split: if_splits)
  with ok show ?thesis by simp
qed

lemma lr_step_ok:
  assumes ok: "stack_ok st" and toks: "list_all token_ok toks"
    and step: "lr_step st toks err = Next st' toks'"
  shows "stack_ok st' \<and> list_all token_ok toks'"
proof (cases toks)
  case Nil
  with step obtain r where "action (top_state st) None = Reduce r"
    and "reduce_rule r st = Some st'" and "toks' = []"
    by (auto simp: lr_step_def split: option.splits act.splits)
  with reduce_ok[OF ok] show ?thesis by simp
next
  case (Cons tv rest)
  obtain ty v where tv: "tv = (ty, v)" by (cases tv)
  show ?thesis
  proof (cases "action (top_state st) (Some ty)")
    case (Shift s)
    with step Cons tv have st': "st' = (s, V_token v) # st" and toks': "toks' = rest"
      by (simp_all add: lr_step_def)
    have tok: "token_ok (ty, v)" and rest: "list_all token_ok rest"
      using toks Cons tv by simp_all
    show ?thesis unfolding st' toks' using shift_ok[OF ok Shift tok] rest by blast
  next
    case (Reduce r)
    with step Cons tv have "reduce_rule r st = Some st'" and "toks' = toks"
      by (auto simp: lr_step_def split: option.splits)
    with reduce_ok[OF ok Reduce] toks show ?thesis by simp
  next
    case Accept
    with step Cons tv show ?thesis by (simp add: lr_step_def)
  next
    case Syntax_error
    with step Cons tv show ?thesis by (simp add: lr_step_def)
  qed
qed

lemma lr_step_done_ok:
  assumes ok: "stack_ok st" and step: "lr_step st toks err = Done (Inr n)"
  shows "all_conditions parsed_condition n"
proof -
  from step obtain st' where "pop_node st = Some (n, st')"
    by (auto simp: lr_step_def split: list.splits option.splits act.splits prod.splits)
  with pop_node_ok[OF ok] show ?thesis by blast
qed

lemma lr_parse_ok:
  "stack_ok st \<Longrightarrow> list_all token_ok toks \<Longrightarrow> lr_parse st toks err = Inr t \<Longrightarrow>
     all_conditions parsed_condition t"
proof (induction st toks err rule: lr_parse.induct)
  case (1 st toks err)
  show ?case
  proof (cases "lr_step st toks err")
    case (Done res)
    with "1.prems"(3) have "lr_step st toks err = Done (Inr t)"
      by (simp add: lr_parse.simps[of st toks err])
    with lr_step_done_ok[OF "1.prems"(1)] show ?thesis by blast
  next
    case (Next st' toks')
    from lr_step_ok[OF "1.prems"(1,2) Next] have "stack_ok st'" and "list_all token_ok toks'"
      by simp_all
    moreover have "lr_parse st' toks' err = Inr t"
      using "1.prems"(3) Next by (simp add: lr_parse.simps[of st toks err])
    ultimately show ?thesis using "1.IH"[OF Next] by blast
  qed
qed

lemma parse_ok: "parse text = Inr t \<Longrightarrow> all_conditions parsed_condition t"
proof -
  assume a: "parse text = Inr t"
  obtain toks err where tk: "tokenize text = (toks, err)" by (cases "tokenize text")
  with a have p: "lr_parse [] toks err = Inr t" by (simp add: parse_def)
  have "stack_ok []" by simp
  from lr_parse_ok[OF this tokenize_ok[OF tk] p] show ?thesis .
qed

section \<open>Conditions on a datetime field\<close>








end
